theory Spec2Isabelle
  imports Complex_Main
begin

section \<open>Python values, dictionaries and exceptions\<close>

text \<open>
  The analyser of \<^verbatim>\<open>pa_analyzer_integrated.py\<close> works on numpy arrays of floating-point
  samples and on Python dictionaries. Samples and descriptor values are modelled as
  real numbers: rounding, NaN and infinities are outside this model. A dictionary is a
  partial map from its string keys; a value is a number, a string or a nested dictionary.
  Each exception the modelled code can raise is a constructor of \<open>py_error\<close>, and a
  fallible function returns \<open>py_error + 'a\<close>.
\<close>

datatype pyval = PyFloat real | PyStr string | PyDict "(string \<times> pyval) list"

datatype py_error =
    KeyError string
  | TypeError
  | ValueError
  | ZeroDivisionError

type_synonym pydict = "string \<rightharpoonup> pyval"

text \<open>
  \<^verbatim>\<open>x = d[k]\<close> followed by an ordering comparison of \<^verbatim>\<open>x\<close> with a number: a missing key
  raises KeyError, a value that is not a number raises TypeError at the comparison.
\<close>

definition lookup_num :: "pydict \<Rightarrow> string \<Rightarrow> py_error + real" where
  "lookup_num d k =
     (case d k of
        None \<Rightarrow> Inl (KeyError k)
      | Some (PyFloat x) \<Rightarrow> Inr x
      | Some _ \<Rightarrow> Inl TypeError)"

section \<open>The recommendation engine\<close>

text \<open>
  Every message of \<^verbatim>\<open>generate_recommendations\<close> is a fixed text with one value formatted
  into it by \<^verbatim>\<open>{v:.1f}\<close>. A message is modelled by the tag of its text and the value
  that is formatted; the rendered string is a function of the two.
\<close>

datatype template =
    RmsTooLow | RmsTooHigh | RmsGood
  | PeakTooHigh | PeakHeadroom
  | CrestTooLow | CrestTooHigh | CrestGood
  | WidthTooNarrow | WidthTooWide | WidthGood

datatype advice = Advice template real

record recommendations =
  critical :: "advice list"
  important :: "advice list"
  good_points :: "advice list"

definition empty_recommendations :: recommendations where
  "empty_recommendations = \<lparr>critical = [], important = [], good_points = []\<rparr>"

definition append_critical :: "advice \<Rightarrow> recommendations \<Rightarrow> recommendations" where
  "append_critical m r = r\<lparr>critical := critical r @ [m]\<rparr>"

definition append_important :: "advice \<Rightarrow> recommendations \<Rightarrow> recommendations" where
  "append_important m r = r\<lparr>important := important r @ [m]\<rparr>"

definition append_good :: "advice \<Rightarrow> recommendations \<Rightarrow> recommendations" where
  "append_good m r = r\<lparr>good_points := good_points r @ [m]\<rparr>"

text \<open>The four \<^verbatim>\<open>if\<close>/\<^verbatim>\<open>elif\<close> chains, in the order of the source.\<close>

definition check_rms :: "real \<Rightarrow> recommendations \<Rightarrow> recommendations" where
  "check_rms rms r =
     (if rms < -23 then append_critical (Advice RmsTooLow rms) r
      else if rms > -14 then append_critical (Advice RmsTooHigh rms) r
      else if -20 \<le> rms \<and> rms \<le> -16 then append_good (Advice RmsGood rms) r
      else r)"

definition check_peak :: "real \<Rightarrow> recommendations \<Rightarrow> recommendations" where
  "check_peak peak r =
     (if peak > -1 then append_critical (Advice PeakTooHigh peak) r
      else if peak < -6 then append_important (Advice PeakHeadroom peak) r
      else r)"

definition check_crest :: "real \<Rightarrow> recommendations \<Rightarrow> recommendations" where
  "check_crest cf r =
     (if cf < 8 then append_important (Advice CrestTooLow cf) r
      else if cf > 16 then append_important (Advice CrestTooHigh cf) r
      else if 10 \<le> cf \<and> cf \<le> 14 then append_good (Advice CrestGood cf) r
      else r)"

definition check_width :: "real \<Rightarrow> recommendations \<Rightarrow> recommendations" where
  "check_width width r =
     (if width < 30 then append_important (Advice WidthTooNarrow width) r
      else if width > 80 then append_important (Advice WidthTooWide width) r
      else if 50 \<le> width \<and> width \<le> 70 then append_good (Advice WidthGood width) r
      else r)"

text \<open>
  \<^verbatim>\<open>generate_recommendations(analysis_data, metadata)\<close>: each key is read just before its
  chain runs, so the first missing or non-numeric key, in the order rms, peak, crest
  factor, stereo width, decides the exception. \<^verbatim>\<open>metadata\<close> is a parameter the body
  never reads.
\<close>

definition generate_recommendations :: "pydict \<Rightarrow> pydict \<Rightarrow> py_error + recommendations" where
  "generate_recommendations analysis_data metadata =
     (case lookup_num analysis_data ''rms_db'' of
        Inl e \<Rightarrow> Inl e
      | Inr rms \<Rightarrow>
     (case lookup_num analysis_data ''peak_db'' of
        Inl e \<Rightarrow> Inl e
      | Inr peak \<Rightarrow>
     (case lookup_num analysis_data ''crest_factor'' of
        Inl e \<Rightarrow> Inl e
      | Inr cf \<Rightarrow>
     (case lookup_num analysis_data ''stereo_width'' of
        Inl e \<Rightarrow> Inl e
      | Inr width \<Rightarrow>
          Inr (check_width width (check_crest cf (check_peak peak
                (check_rms rms empty_recommendations))))))))"

text \<open>The metric a message reports on, and the position of that metric in the source.\<close>

datatype metric = Rms | Peak | Crest | Width

fun metric_of :: "advice \<Rightarrow> metric" where
  "metric_of (Advice RmsTooLow _) = Rms"
| "metric_of (Advice RmsTooHigh _) = Rms"
| "metric_of (Advice RmsGood _) = Rms"
| "metric_of (Advice PeakTooHigh _) = Peak"
| "metric_of (Advice PeakHeadroom _) = Peak"
| "metric_of (Advice CrestTooLow _) = Crest"
| "metric_of (Advice CrestTooHigh _) = Crest"
| "metric_of (Advice CrestGood _) = Crest"
| "metric_of (Advice WidthTooNarrow _) = Width"
| "metric_of (Advice WidthTooWide _) = Width"
| "metric_of (Advice WidthGood _) = Width"

fun metric_rank :: "metric \<Rightarrow> nat" where
  "metric_rank Rms = 0"
| "metric_rank Peak = 1"
| "metric_rank Crest = 2"
| "metric_rank Width = 3"

definition all_messages :: "recommendations \<Rightarrow> advice list" where
  "all_messages r = critical r @ important r @ good_points r"

text \<open>
  What each chain adds to each list, as a function of the value alone. These are used
  to state what the engine returns list by list.
\<close>

definition rms_critical :: "real \<Rightarrow> advice list" where
  "rms_critical rms = (if rms < -23 then [Advice RmsTooLow rms]
     else if rms > -14 then [Advice RmsTooHigh rms] else [])"

definition rms_good :: "real \<Rightarrow> advice list" where
  "rms_good rms = (if -20 \<le> rms \<and> rms \<le> -16 then [Advice RmsGood rms] else [])"

definition peak_critical :: "real \<Rightarrow> advice list" where
  "peak_critical peak = (if peak > -1 then [Advice PeakTooHigh peak] else [])"

definition peak_important :: "real \<Rightarrow> advice list" where
  "peak_important peak = (if peak < -6 then [Advice PeakHeadroom peak] else [])"

definition crest_important :: "real \<Rightarrow> advice list" where
  "crest_important cf = (if cf < 8 then [Advice CrestTooLow cf]
     else if cf > 16 then [Advice CrestTooHigh cf] else [])"

definition crest_good :: "real \<Rightarrow> advice list" where
  "crest_good cf = (if 10 \<le> cf \<and> cf \<le> 14 then [Advice CrestGood cf] else [])"

definition width_important :: "real \<Rightarrow> advice list" where
  "width_important w = (if w < 30 then [Advice WidthTooNarrow w]
     else if w > 80 then [Advice WidthTooWide w] else [])"

definition width_good :: "real \<Rightarrow> advice list" where
  "width_good w = (if 50 \<le> w \<and> w \<le> 70 then [Advice WidthGood w] else [])"

section \<open>numpy, librosa and scipy operations\<close>

text \<open>
  A one-dimensional array is a list of reals, a two-dimensional array a list of rows of
  equal length; \<open>[]\<close> is the array without rows and without columns.
\<close>

definition n_samples :: "real list list \<Rightarrow> nat" where
  "n_samples ys = (case ys of [] \<Rightarrow> 0 | r # _ \<Rightarrow> length r)"

definition rectangular :: "real list list \<Rightarrow> bool" where
  "rectangular ys = list_all (\<lambda>r. length r = n_samples ys) ys"

text \<open>
  \<^verbatim>\<open>np.mean(a)\<close> of a one-dimensional array. numpy gives NaN for an empty array; the
  analysis below reaches \<^verbatim>\<open>np.mean\<close> only with non-empty arrays.
\<close>

definition np_mean :: "real list \<Rightarrow> real" where
  "np_mean xs = sum_list xs / real (length xs)"

text \<open>\<^verbatim>\<open>np.mean(a, axis=0)\<close>: the mean over the rows, column by column.\<close>

definition np_mean_axis0 :: "real list list \<Rightarrow> real list" where
  "np_mean_axis0 ys = map (\<lambda>j. np_mean (map (\<lambda>r. r ! j) ys)) [0..<n_samples ys]"

text \<open>\<^verbatim>\<open>np.max(a)\<close> raises ValueError on an array of size zero.\<close>

definition np_max :: "real list \<Rightarrow> py_error + real" where
  "np_max xs = (if xs = [] then Inl ValueError else Inr (Max (set xs)))"

text \<open>\<^verbatim>\<open>np.clip(x, lo, hi)\<close> is \<^verbatim>\<open>minimum(hi, maximum(x, lo))\<close>.\<close>

definition np_clip :: "real \<Rightarrow> real \<Rightarrow> real \<Rightarrow> real" where
  "np_clip x lo hi = min hi (max x lo)"

text \<open>
  \<^verbatim>\<open>np.percentile(a, q)\<close> with the default linear interpolation, on a non-empty array:
  the value at the fractional position \<open>(n - 1) * q / 100\<close> of the sorted array.
\<close>

definition np_percentile :: "real list \<Rightarrow> real \<Rightarrow> real" where
  "np_percentile xs q =
     (let s = sort xs;
          h = real (length xs - 1) * q / 100;
          lo = nat \<lfloor>h\<rfloor>;
          hi = min (lo + 1) (length xs - 1)
      in s ! lo + (h - real lo) * (s ! hi - s ! lo))"

text \<open>The expression \<^verbatim>\<open>20 * np.log10(x + 1e-10)\<close>, which the source writes out at each use.\<close>

definition to_db :: "real \<Rightarrow> real" where
  "to_db x = 20 * log 10 (x + 1 / 10 ^ 10)"

text \<open>
  \<^verbatim>\<open>librosa.feature.rms(y=xs, frame_length=fl, hop_length=hop)[0]\<close> with the library's
  defaults \<^verbatim>\<open>center=True\<close> and \<^verbatim>\<open>pad_mode="constant"\<close>: the signal gets \<open>fl div 2\<close> zeros
  on each side, frame \<open>i\<close> is the window of \<open>fl\<close> samples starting at \<open>i * hop\<close>, there are
  \<open>1 + (n - fl) div hop\<close> frames for a padded length \<open>n\<close>, and the value of a frame is the
  square root of the mean of its squared samples. The defaults of the call without
  frame arguments are \<open>fl = 2048\<close> and \<open>hop = 512\<close>. The padded signal is never shorter
  than a frame, so the framing itself does not fail.
\<close>

definition pad_center :: "nat \<Rightarrow> real list \<Rightarrow> real list" where
  "pad_center fl xs = replicate (fl div 2) 0 @ xs @ replicate (fl div 2) 0"

definition frames :: "nat \<Rightarrow> nat \<Rightarrow> real list \<Rightarrow> real list list" where
  "frames fl hop xs =
     map (\<lambda>i. take fl (drop (i * hop) xs)) [0..<1 + (length xs - fl) div hop]"

definition librosa_rms :: "nat \<Rightarrow> nat \<Rightarrow> real list \<Rightarrow> real list" where
  "librosa_rms fl hop xs =
     map (\<lambda>f. sqrt (np_mean (map (\<lambda>x. \<bar>x\<bar> ^ 2) f))) (frames fl hop (pad_center fl xs))"

text \<open>
  \<^verbatim>\<open>signal.sosfilt(signal.butter(4, [low_norm, high_norm], btype='band', output='sos'), audio)\<close>
  is scipy's; it is a parameter of the model: applied to the two normalised cutoffs and
  the signal it gives \<open>None\<close> when either call raises and the filtered signal, of the
  length of the input, otherwise.
\<close>

type_synonym sos_filter = "real \<Rightarrow> real \<Rightarrow> real list \<Rightarrow> real list option"

section \<open>The audio analyser\<close>

text \<open>The attributes \<^verbatim>\<open>self.y\<close>, \<^verbatim>\<open>self.sr\<close> and \<^verbatim>\<open>self.duration\<close> of \<^verbatim>\<open>AudioAnalyzer\<close>.\<close>

record audio_analyzer =
  self_y :: "real list list"
  self_sr :: real
  self_duration :: real

text \<open>
  \<^verbatim>\<open>librosa.load(path, sr=target_sr, mono=False)\<close> returns a one-dimensional array for a
  file with one channel and an array of two or more rows otherwise, together with the
  sample rate. \<^verbatim>\<open>load_audio\<close> stacks a one-dimensional array twice and sets the duration
  to the number of samples divided by the sample rate, as \<^verbatim>\<open>librosa.get_duration\<close> does.
\<close>

datatype decoded = Mono "real list" | Multi "real list list"

definition well_formed :: "decoded \<Rightarrow> bool" where
  "well_formed d = (case d of Mono xs \<Rightarrow> True | Multi rows \<Rightarrow> 2 \<le> length rows \<and> rectangular rows)"

definition load_audio :: "decoded \<Rightarrow> real \<Rightarrow> py_error + audio_analyzer" where
  "load_audio d sr =
     (let y = (case d of Mono xs \<Rightarrow> [xs, xs] | Multi rows \<Rightarrow> rows)
      in if sr = 0 then Inl ZeroDivisionError
         else Inr \<lparr>self_y = y, self_sr = sr, self_duration = real (n_samples y) / sr\<rparr>)"

text \<open>
  \<^verbatim>\<open>calculate_stereo_width\<close> over the reals; the whole-mix model uses this value. The
  same body in float32 range arithmetic is \<open>calculate_stereo_width_f32\<close> below.
\<close>

definition calculate_stereo_width :: "audio_analyzer \<Rightarrow> real" where
  "calculate_stereo_width self =
     (if length (self_y self) < 2 then 0
      else
        let L = self_y self ! 0;
            R = self_y self ! 1;
            mid = map (\<lambda>x. x / 2) (map2 (+) L R);
            side = map (\<lambda>x. x / 2) (map2 (-) L R);
            mid_energy = sum_list (map (\<lambda>x. x ^ 2) mid);
            side_energy = sum_list (map (\<lambda>x. x ^ 2) side)
        in if mid_energy + side_energy = 0 then 0
           else np_clip ((side_energy / (mid_energy + side_energy)) * 100) 0 100)"

text \<open>
  \<^verbatim>\<open>bandpass_filter\<close>: \<^verbatim>\<open>low / nyq\<close> is a division of Python numbers and raises
  ZeroDivisionError for a sample rate of zero; the \<^verbatim>\<open>try\<close> block covers only the calls to
  scipy.
\<close>

definition bandpass_filter ::
  "sos_filter \<Rightarrow> audio_analyzer \<Rightarrow> real list \<Rightarrow> real \<Rightarrow> real \<Rightarrow> py_error + real list" where
  "bandpass_filter filt self audio low high =
     (let nyq = self_sr self / 2
      in if nyq = 0 then Inl ZeroDivisionError
         else
           let low_norm = np_clip (low / nyq) 0.001 0.999;
               high_norm = np_clip (high / nyq) 0.001 0.999
           in if low_norm \<ge> high_norm then Inr (map (\<lambda>x. x * 0) audio)
              else (case filt low_norm high_norm audio of
                      Some filtered \<Rightarrow> Inr filtered
                    | None \<Rightarrow> Inr (map (\<lambda>x. x * 0) audio)))"

definition bands :: "(string \<times> real \<times> real) list" where
  "bands =
     [(''sub_bass'', 20, 60), (''bass'', 60, 250), (''low_mid'', 250, 500),
      (''mid'', 500, 2000), (''high_mid'', 2000, 4000), (''presence'', 4000, 8000),
      (''brilliance'', 8000, 20000)]"

text \<open>The loop of \<^verbatim>\<open>calculate_band_energies\<close> over the table, in the order of the table.\<close>

fun band_energy_loop ::
  "sos_filter \<Rightarrow> audio_analyzer \<Rightarrow> real list \<Rightarrow> (string \<times> real \<times> real) list
     \<Rightarrow> py_error + (string \<times> pyval) list" where
  "band_energy_loop filt self audio [] = Inr []"
| "band_energy_loop filt self audio ((name, low, high) # rest) =
     (case bandpass_filter filt self audio low high of
        Inl e \<Rightarrow> Inl e
      | Inr filtered \<Rightarrow>
          (let energy_db = to_db (sqrt (np_mean (map (\<lambda>x. x ^ 2) filtered)))
           in case band_energy_loop filt self audio rest of
                Inl e \<Rightarrow> Inl e
              | Inr energies \<Rightarrow> Inr ((name, PyFloat energy_db) # energies)))"

definition calculate_band_energies ::
  "sos_filter \<Rightarrow> audio_analyzer \<Rightarrow> real list \<Rightarrow> py_error + (string \<times> pyval) list" where
  "calculate_band_energies filt self audio = band_energy_loop filt self audio bands"

definition calculate_dynamic_range :: "real list \<Rightarrow> real" where
  "calculate_dynamic_range audio =
     (let rms_values = librosa_rms 2048 512 audio;
          rms_db = map to_db rms_values;
          percentile_95 = np_percentile rms_db 95;
          percentile_10 = np_percentile rms_db 10
      in percentile_95 - percentile_10)"

text \<open>
  \<^verbatim>\<open>analyze_2mix\<close>, statement by statement. The body has no check of its input: the
  exceptions are the ValueError of \<^verbatim>\<open>np.max\<close> on an empty mono signal and the
  ZeroDivisionError of \<^verbatim>\<open>bandpass_filter\<close>. The result is the dictionary of the
  \<^verbatim>\<open>return\<close> statement.
\<close>

definition analyze_2mix :: "sos_filter \<Rightarrow> audio_analyzer \<Rightarrow> py_error + pydict" where
  "analyze_2mix filt self =
     (let mono = np_mean_axis0 (self_y self);
          rms = librosa_rms 2048 512 mono;
          rms_db = to_db (np_mean rms)
      in case np_max (map abs mono) of
           Inl e \<Rightarrow> Inl e
         | Inr peak \<Rightarrow>
             (let peak_db = to_db peak;
                  crest_factor = peak_db - rms_db;
                  stereo_width = calculate_stereo_width self
              in case calculate_band_energies filt self mono of
                   Inl e \<Rightarrow> Inl e
                 | Inr band_energies \<Rightarrow>
                     (let dynamic_range = calculate_dynamic_range mono
                      in Inr [''rms_db'' \<mapsto> PyFloat rms_db,
                              ''peak_db'' \<mapsto> PyFloat peak_db,
                              ''crest_factor'' \<mapsto> PyFloat crest_factor,
                              ''stereo_width'' \<mapsto> PyFloat stereo_width,
                              ''band_energies'' \<mapsto> PyDict band_energies,
                              ''dynamic_range'' \<mapsto> PyFloat dynamic_range,
                              ''duration'' \<mapsto> PyFloat (self_duration self)])))"

section \<open>The stereo width in float32\<close>

text \<open>
  The samples that \<^verbatim>\<open>librosa.load\<close> returns are float32, and every operation of
  \<^verbatim>\<open>calculate_stereo_width\<close> is a float32 operation of numpy. The range of float32
  decides what the function returns at the extremes: a square can overflow to
  infinity, infinity divided by infinity is NaN and \<^verbatim>\<open>np.clip\<close> passes NaN through; a
  square can underflow to zero. A float32 value is modelled as a finite real, an
  infinity or NaN. \<open>f32_round\<close> takes the exact result of an operation to infinity from
  \<open>2 ^ 128 - 2 ^ 103\<close> on, where rounding to nearest overflows, to zero up to \<open>2 ^ -150\<close>,
  half the smallest subnormal, and leaves it unchanged in between: the rounding of
  the mantissa is not modelled, and the two zeros are not told apart. Division by
  zero gives an infinity or NaN, as it does for numpy scalars.
\<close>

datatype f32 = Fin real | PInf | NInf | NaN

definition f32_overflow :: real where
  "f32_overflow = 2 ^ 128 - 2 ^ 103"

definition f32_underflow :: real where
  "f32_underflow = 1 / 2 ^ 150"

definition f32_round :: "real \<Rightarrow> f32" where
  "f32_round x =
     (if x \<ge> f32_overflow then PInf
      else if x \<le> - f32_overflow then NInf
      else if \<bar>x\<bar> \<le> f32_underflow then Fin 0
      else Fin x)"

fun f32_add :: "f32 \<Rightarrow> f32 \<Rightarrow> f32" where
  "f32_add (Fin x) (Fin y) = f32_round (x + y)"
| "f32_add NaN _ = NaN"
| "f32_add _ NaN = NaN"
| "f32_add PInf NInf = NaN"
| "f32_add NInf PInf = NaN"
| "f32_add PInf _ = PInf"
| "f32_add _ PInf = PInf"
| "f32_add NInf _ = NInf"
| "f32_add _ NInf = NInf"

fun f32_sub :: "f32 \<Rightarrow> f32 \<Rightarrow> f32" where
  "f32_sub (Fin x) (Fin y) = f32_round (x - y)"
| "f32_sub NaN _ = NaN"
| "f32_sub _ NaN = NaN"
| "f32_sub PInf PInf = NaN"
| "f32_sub NInf NInf = NaN"
| "f32_sub PInf _ = PInf"
| "f32_sub _ NInf = PInf"
| "f32_sub NInf _ = NInf"
| "f32_sub _ PInf = NInf"

fun f32_mul :: "f32 \<Rightarrow> f32 \<Rightarrow> f32" where
  "f32_mul (Fin x) (Fin y) = f32_round (x * y)"
| "f32_mul NaN _ = NaN"
| "f32_mul _ NaN = NaN"
| "f32_mul (Fin x) PInf = (if x = 0 then NaN else if 0 < x then PInf else NInf)"
| "f32_mul (Fin x) NInf = (if x = 0 then NaN else if 0 < x then NInf else PInf)"
| "f32_mul PInf (Fin y) = (if y = 0 then NaN else if 0 < y then PInf else NInf)"
| "f32_mul NInf (Fin y) = (if y = 0 then NaN else if 0 < y then NInf else PInf)"
| "f32_mul PInf PInf = PInf"
| "f32_mul NInf NInf = PInf"
| "f32_mul PInf NInf = NInf"
| "f32_mul NInf PInf = NInf"

fun f32_div :: "f32 \<Rightarrow> f32 \<Rightarrow> f32" where
  "f32_div (Fin x) (Fin y) =
     (if y = 0 then (if x = 0 then NaN else if 0 < x then PInf else NInf)
      else f32_round (x / y))"
| "f32_div NaN _ = NaN"
| "f32_div _ NaN = NaN"
| "f32_div (Fin x) PInf = Fin 0"
| "f32_div (Fin x) NInf = Fin 0"
| "f32_div PInf (Fin y) = (if 0 \<le> y then PInf else NInf)"
| "f32_div NInf (Fin y) = (if 0 \<le> y then NInf else PInf)"
| "f32_div PInf PInf = NaN"
| "f32_div PInf NInf = NaN"
| "f32_div NInf PInf = NaN"
| "f32_div NInf NInf = NaN"

text \<open>
  \<^verbatim>\<open>np.sum\<close> of a float32 array, and \<^verbatim>\<open>np.clip\<close> of a float32 value between two numbers:
  an infinity is clipped to the bound, NaN stays NaN.
\<close>

definition f32_sum :: "f32 list \<Rightarrow> f32" where
  "f32_sum xs = foldl f32_add (Fin 0) xs"

fun f32_clip :: "f32 \<Rightarrow> real \<Rightarrow> real \<Rightarrow> f32" where
  "f32_clip (Fin x) lo hi = Fin (np_clip x lo hi)"
| "f32_clip PInf lo hi = Fin (np_clip hi lo hi)"
| "f32_clip NInf lo hi = Fin (np_clip lo lo hi)"
| "f32_clip NaN lo hi = NaN"

text \<open>
  \<^verbatim>\<open>np.sum(mid ** 2)\<close> and \<^verbatim>\<open>np.sum(side ** 2)\<close> with \<^verbatim>\<open>mid = (L + R) / 2\<close> and
  \<^verbatim>\<open>side = (L - R) / 2\<close>, and the body of \<^verbatim>\<open>calculate_stereo_width\<close>.
\<close>

definition mid_energy_f32 :: "real list \<Rightarrow> real list \<Rightarrow> f32" where
  "mid_energy_f32 L R =
     f32_sum (map (\<lambda>x. f32_mul x x)
       (map (\<lambda>x. f32_div x (Fin 2)) (map2 (\<lambda>l r. f32_add (Fin l) (Fin r)) L R)))"

definition side_energy_f32 :: "real list \<Rightarrow> real list \<Rightarrow> f32" where
  "side_energy_f32 L R =
     f32_sum (map (\<lambda>x. f32_mul x x)
       (map (\<lambda>x. f32_div x (Fin 2)) (map2 (\<lambda>l r. f32_sub (Fin l) (Fin r)) L R)))"

definition calculate_stereo_width_f32 :: "audio_analyzer \<Rightarrow> f32" where
  "calculate_stereo_width_f32 self =
     (if length (self_y self) < 2 then Fin 0
      else
        let L = self_y self ! 0;
            R = self_y self ! 1;
            mid_energy = mid_energy_f32 L R;
            side_energy = side_energy_f32 L R
        in if f32_add mid_energy side_energy = Fin 0 then Fin 0
           else f32_clip (f32_mul (f32_div side_energy (f32_add mid_energy side_energy)) (Fin 100))
                  0 100)"

text \<open>
  The values an energy can take: a finite value that is not negative, or infinity.
\<close>

definition f32_nonneg :: "f32 \<Rightarrow> bool" where
  "f32_nonneg v = (case v of Fin x \<Rightarrow> 0 \<le> x | PInf \<Rightarrow> True | NInf \<Rightarrow> False | NaN \<Rightarrow> False)"

section \<open>The order of the statements of the analysis\<close>

text \<open>
  \<^verbatim>\<open>analyze_2mix\<close> with a record of its progress: the first component lists, in the
  order of the source, the features that have been assigned when the body returns or
  raises; the second component is the outcome.
\<close>

definition analyze_2mix_trace ::
  "sos_filter \<Rightarrow> audio_analyzer \<Rightarrow> (string \<times> pyval) list \<times> (py_error + pydict)" where
  "analyze_2mix_trace filt self =
     (let mono = np_mean_axis0 (self_y self);
          rms = librosa_rms 2048 512 mono;
          rms_db = to_db (np_mean rms);
          computed = [(''rms_db'', PyFloat rms_db)]
      in case np_max (map abs mono) of
           Inl e \<Rightarrow> (computed, Inl e)
         | Inr peak \<Rightarrow>
             (let peak_db = to_db peak;
                  crest_factor = peak_db - rms_db;
                  stereo_width = calculate_stereo_width self;
                  computed = computed @ [(''peak_db'', PyFloat peak_db),
                                         (''crest_factor'', PyFloat crest_factor),
                                         (''stereo_width'', PyFloat stereo_width)]
              in case calculate_band_energies filt self mono of
                   Inl e \<Rightarrow> (computed, Inl e)
                 | Inr band_energies \<Rightarrow>
                     (let dynamic_range = calculate_dynamic_range mono;
                          computed = computed @ [(''band_energies'', PyDict band_energies),
                                                 (''dynamic_range'', PyFloat dynamic_range)]
                      in (computed,
                          Inr [''rms_db'' \<mapsto> PyFloat rms_db,
                               ''peak_db'' \<mapsto> PyFloat peak_db,
                               ''crest_factor'' \<mapsto> PyFloat crest_factor,
                               ''stereo_width'' \<mapsto> PyFloat stereo_width,
                               ''band_energies'' \<mapsto> PyDict band_energies,
                               ''dynamic_range'' \<mapsto> PyFloat dynamic_range,
                               ''duration'' \<mapsto> PyFloat (self_duration self)]))))"

text \<open>
  A filter that returns its input. It stands for scipy's filter where a statement is
  made at a concrete input; the general statements hold for every filter.
\<close>

definition passthrough_filter :: sos_filter where
  "passthrough_filter low_norm high_norm audio = Some audio"

section \<open>Properties of the recommendation engine\<close>

lemmas append_defs = append_critical_def append_important_def append_good_def

lemma check_rms_fields:
  "critical (check_rms rms r) = critical r @ rms_critical rms"
  "important (check_rms rms r) = important r"
  "good_points (check_rms rms r) = good_points r @ rms_good rms"
  by (simp_all add: check_rms_def append_defs rms_critical_def rms_good_def)

lemma check_peak_fields:
  "critical (check_peak peak r) = critical r @ peak_critical peak"
  "important (check_peak peak r) = important r @ peak_important peak"
  "good_points (check_peak peak r) = good_points r"
  by (simp_all add: check_peak_def append_defs peak_critical_def peak_important_def)

lemma check_crest_fields:
  "critical (check_crest cf r) = critical r"
  "important (check_crest cf r) = important r @ crest_important cf"
  "good_points (check_crest cf r) = good_points r @ crest_good cf"
  by (simp_all add: check_crest_def append_defs crest_important_def crest_good_def)

lemma check_width_fields:
  "critical (check_width w r) = critical r"
  "important (check_width w r) = important r @ width_important w"
  "good_points (check_width w r) = good_points r @ width_good w"
  by (simp_all add: check_width_def append_defs width_important_def width_good_def)

lemmas check_fields = check_rms_fields check_peak_fields check_crest_fields check_width_fields

lemma generate_recommendations_fields:
  assumes "generate_recommendations a m = Inr r"
  obtains rms peak cf w where
    "lookup_num a ''rms_db'' = Inr rms" "lookup_num a ''peak_db'' = Inr peak"
    "lookup_num a ''crest_factor'' = Inr cf" "lookup_num a ''stereo_width'' = Inr w"
    "critical r = rms_critical rms @ peak_critical peak"
    "important r = peak_important peak @ crest_important cf @ width_important w"
    "good_points r = rms_good rms @ crest_good cf @ width_good w"
proof -
  from assms obtain rms peak cf w where l:
    "lookup_num a ''rms_db'' = Inr rms" "lookup_num a ''peak_db'' = Inr peak"
    "lookup_num a ''crest_factor'' = Inr cf" "lookup_num a ''stereo_width'' = Inr w"
    and r: "r = check_width w (check_crest cf (check_peak peak (check_rms rms empty_recommendations)))"
    by (auto simp: generate_recommendations_def split: sum.splits)
  have "critical r = rms_critical rms @ peak_critical peak"
    "important r = peak_important peak @ crest_important cf @ width_important w"
    "good_points r = rms_good rms @ crest_good cf @ width_good w"
    unfolding r by (simp_all add: check_fields empty_recommendations_def)
  with l show thesis by (rule that)
qed

lemma generate_recommendations_returns:
  assumes "lookup_num a ''rms_db'' = Inr rms" and "lookup_num a ''peak_db'' = Inr peak"
    and "lookup_num a ''crest_factor'' = Inr cf" and "lookup_num a ''stereo_width'' = Inr w"
  shows "\<exists>r. generate_recommendations a m = Inr r
    \<and> critical r = rms_critical rms @ peak_critical peak
    \<and> important r = peak_important peak @ crest_important cf @ width_important w
    \<and> good_points r = rms_good rms @ crest_good cf @ width_good w"
  using assms by (simp add: generate_recommendations_def check_fields empty_recommendations_def)

lemma rank_contrib:
  "map (\<lambda>x. metric_rank (metric_of x)) (rms_critical v) = replicate (length (rms_critical v)) 0"
  "map (\<lambda>x. metric_rank (metric_of x)) (rms_good v) = replicate (length (rms_good v)) 0"
  "map (\<lambda>x. metric_rank (metric_of x)) (peak_critical v) = replicate (length (peak_critical v)) 1"
  "map (\<lambda>x. metric_rank (metric_of x)) (peak_important v) = replicate (length (peak_important v)) 1"
  "map (\<lambda>x. metric_rank (metric_of x)) (crest_important v) = replicate (length (crest_important v)) 2"
  "map (\<lambda>x. metric_rank (metric_of x)) (crest_good v) = replicate (length (crest_good v)) 2"
  "map (\<lambda>x. metric_rank (metric_of x)) (width_important v) = replicate (length (width_important v)) 3"
  "map (\<lambda>x. metric_rank (metric_of x)) (width_good v) = replicate (length (width_good v)) 3"
  by (simp_all add: rms_critical_def rms_good_def peak_critical_def peak_important_def
      crest_important_def crest_good_def width_important_def width_good_def)

lemma length_contrib:
  "length (rms_critical v) \<le> 1" "length (rms_good v) \<le> 1"
  "length (peak_critical v) \<le> 1" "length (peak_important v) \<le> 1"
  "length (crest_important v) \<le> 1" "length (crest_good v) \<le> 1"
  "length (width_important v) \<le> 1" "length (width_good v) \<le> 1"
  by (simp_all add: rms_critical_def rms_good_def peak_critical_def peak_important_def
      crest_important_def crest_good_def width_important_def width_good_def)

lemma exclusive_contrib:
  "rms_critical v = [] \<or> rms_good v = []"
  "peak_critical v = [] \<or> peak_important v = []"
  "crest_important v = [] \<or> crest_good v = []"
  "width_important v = [] \<or> width_good v = []"
  by (simp_all add: rms_critical_def rms_good_def peak_critical_def peak_important_def
      crest_important_def crest_good_def width_important_def width_good_def)

lemma sorted_replicate2:
  assumes "length xs \<le> 1" "length ys \<le> 1" "i < (j::nat)"
  shows "sorted_wrt (<) (replicate (length xs) i @ replicate (length ys) j)"
proof -
  from assms(1,2) have "length xs = 0 \<or> length xs = 1" "length ys = 0 \<or> length ys = 1" by arith+
  with assms(3) show ?thesis by (auto simp: sorted_wrt_append)
qed

lemma sorted_replicate3:
  assumes "length xs \<le> 1" "length ys \<le> 1" "length zs \<le> 1" "i < (j::nat)" "j < k"
  shows "sorted_wrt (<) (replicate (length xs) i @ replicate (length ys) j @ replicate (length zs) k)"
proof -
  from assms(1,2,3) have "length xs = 0 \<or> length xs = 1" "length ys = 0 \<or> length ys = 1"
    "length zs = 0 \<or> length zs = 1" by arith+
  with assms(4,5) show ?thesis by (auto simp: sorted_wrt_append)
qed

lemma result_sorted:
  assumes "generate_recommendations a m = Inr r"
  shows "sorted_wrt (<) (map (\<lambda>x. metric_rank (metric_of x)) (critical r))"
    and "sorted_wrt (<) (map (\<lambda>x. metric_rank (metric_of x)) (important r))"
    and "sorted_wrt (<) (map (\<lambda>x. metric_rank (metric_of x)) (good_points r))"
proof -
  from assms obtain rms peak cf w where f:
    "critical r = rms_critical rms @ peak_critical peak"
    "important r = peak_important peak @ crest_important cf @ width_important w"
    "good_points r = rms_good rms @ crest_good cf @ width_good w"
    by (rule generate_recommendations_fields)
  show "sorted_wrt (<) (map (\<lambda>x. metric_rank (metric_of x)) (critical r))"
    unfolding f map_append rank_contrib by (rule sorted_replicate2) (rule length_contrib, rule length_contrib, simp)
  show "sorted_wrt (<) (map (\<lambda>x. metric_rank (metric_of x)) (important r))"
    unfolding f map_append rank_contrib by (rule sorted_replicate3) (rule length_contrib, rule length_contrib, rule length_contrib, simp_all)
  show "sorted_wrt (<) (map (\<lambda>x. metric_rank (metric_of x)) (good_points r))"
    unfolding f map_append rank_contrib by (rule sorted_replicate3) (rule length_contrib, rule length_contrib, rule length_contrib, simp_all)
qed

lemma filter_metric_contrib:
  "filter (\<lambda>x. metric_of x = k) (rms_critical v) = (if k = Rms then rms_critical v else [])"
  "filter (\<lambda>x. metric_of x = k) (rms_good v) = (if k = Rms then rms_good v else [])"
  "filter (\<lambda>x. metric_of x = k) (peak_critical v) = (if k = Peak then peak_critical v else [])"
  "filter (\<lambda>x. metric_of x = k) (peak_important v) = (if k = Peak then peak_important v else [])"
  "filter (\<lambda>x. metric_of x = k) (crest_important v) = (if k = Crest then crest_important v else [])"
  "filter (\<lambda>x. metric_of x = k) (crest_good v) = (if k = Crest then crest_good v else [])"
  "filter (\<lambda>x. metric_of x = k) (width_important v) = (if k = Width then width_important v else [])"
  "filter (\<lambda>x. metric_of x = k) (width_good v) = (if k = Width then width_good v else [])"
  by (auto simp: rms_critical_def rms_good_def peak_critical_def peak_important_def
      crest_important_def crest_good_def width_important_def width_good_def)

lemma result_at_most_one:
  assumes "generate_recommendations a m = Inr r"
  shows "length (filter (\<lambda>x. metric_of x = k) (all_messages r)) \<le> 1"
proof -
  from assms obtain rms peak cf w where f:
    "critical r = rms_critical rms @ peak_critical peak"
    "important r = peak_important peak @ crest_important cf @ width_important w"
    "good_points r = rms_good rms @ crest_good cf @ width_good w"
    by (rule generate_recommendations_fields)
  show ?thesis
  proof (cases k)
    case Rms
    then show ?thesis
      using exclusive_contrib(1)[of rms] length_contrib(1,2)[of rms]
      by (auto simp: all_messages_def f filter_metric_contrib)
  next
    case Peak
    then show ?thesis
      using exclusive_contrib(2)[of peak] length_contrib(3,4)[of peak]
      by (auto simp: all_messages_def f filter_metric_contrib)
  next
    case Crest
    then show ?thesis
      using exclusive_contrib(3)[of cf] length_contrib(5,6)[of cf]
      by (auto simp: all_messages_def f filter_metric_contrib)
  next
    case Width
    then show ?thesis
      using exclusive_contrib(4)[of w] length_contrib(7,8)[of w]
      by (auto simp: all_messages_def f filter_metric_contrib)
  qed
qed

lemma rms_messages:
  assumes "a ''peak_db'' = Some (PyFloat peak)" and "a ''crest_factor'' = Some (PyFloat cf)"
    and "a ''stereo_width'' = Some (PyFloat w)"
  shows "\<exists>r. generate_recommendations (a(''rms_db'' \<mapsto> PyFloat v)) m = Inr r
    \<and> filter (\<lambda>x. metric_of x = Rms) (critical r) = rms_critical v
    \<and> filter (\<lambda>x. metric_of x = Rms) (important r) = []
    \<and> filter (\<lambda>x. metric_of x = Rms) (good_points r) = rms_good v"
proof -
  let ?a = "a(''rms_db'' \<mapsto> PyFloat v)"
  have "lookup_num ?a ''rms_db'' = Inr v" "lookup_num ?a ''peak_db'' = Inr peak"
    "lookup_num ?a ''crest_factor'' = Inr cf" "lookup_num ?a ''stereo_width'' = Inr w"
    using assms by (simp_all add: lookup_num_def)
  from generate_recommendations_returns[OF this, of m] obtain r where
    "generate_recommendations ?a m = Inr r"
    "critical r = rms_critical v @ peak_critical peak"
    "important r = peak_important peak @ crest_important cf @ width_important w"
    "good_points r = rms_good v @ crest_good cf @ width_good w" by blast
  then show ?thesis by (simp add: filter_metric_contrib)
qed

text \<open>
  Claim C3. For a descriptor with \<^verbatim>\<open>rms_db\<close> = -25, \<^verbatim>\<open>peak_db\<close> = -3, \<^verbatim>\<open>crest_factor\<close> = 6 and
  \<^verbatim>\<open>stereo_width\<close> = 20 the engine returns one critical message (rms too low), no peak
  message, the two important messages crest factor too low and stereo width too
  narrow, in that order, and no good point.
\<close>

theorem scenario_c_recommendations:
  assumes "a ''rms_db'' = Some (PyFloat (-25))" and "a ''peak_db'' = Some (PyFloat (-3))"
    and "a ''crest_factor'' = Some (PyFloat 6)" and "a ''stereo_width'' = Some (PyFloat 20)"
  shows "generate_recommendations a m =
     Inr \<lparr>critical = [Advice RmsTooLow (-25)],
          important = [Advice CrestTooLow 6, Advice WidthTooNarrow 20],
          good_points = []\<rparr>"
  using assms
  by (simp add: generate_recommendations_def lookup_num_def check_rms_def check_peak_def
      check_crest_def check_width_def append_defs empty_recommendations_def)

theorem scenario_c_recommendations_witness:
  "generate_recommendations
     [''rms_db'' \<mapsto> PyFloat (-25), ''peak_db'' \<mapsto> PyFloat (-3),
      ''crest_factor'' \<mapsto> PyFloat 6, ''stereo_width'' \<mapsto> PyFloat 20] Map.empty =
     Inr \<lparr>critical = [Advice RmsTooLow (-25)],
          important = [Advice CrestTooLow 6, Advice WidthTooNarrow 20],
          good_points = []\<rparr>"
  by (rule scenario_c_recommendations) simp_all

text \<open>
  Claim C4. With the other three metrics present, a descriptor whose \<^verbatim>\<open>rms_db\<close> is
  exactly -20 or exactly -16 gets the good-category rms message and no other rms
  message, and a descriptor whose \<^verbatim>\<open>rms_db\<close> is -22 gets no rms message in any of the
  three lists.
\<close>

theorem rms_good_band_inclusive_and_gap:
  assumes "a ''peak_db'' = Some (PyFloat peak)" and "a ''crest_factor'' = Some (PyFloat cf)"
    and "a ''stereo_width'' = Some (PyFloat w)"
  shows "(\<exists>r. generate_recommendations (a(''rms_db'' \<mapsto> PyFloat (-20))) m = Inr r
      \<and> filter (\<lambda>x. metric_of x = Rms) (good_points r) = [Advice RmsGood (-20)]
      \<and> filter (\<lambda>x. metric_of x = Rms) (critical r @ important r) = [])
    \<and> (\<exists>r. generate_recommendations (a(''rms_db'' \<mapsto> PyFloat (-16))) m = Inr r
      \<and> filter (\<lambda>x. metric_of x = Rms) (good_points r) = [Advice RmsGood (-16)]
      \<and> filter (\<lambda>x. metric_of x = Rms) (critical r @ important r) = [])
    \<and> (\<exists>r. generate_recommendations (a(''rms_db'' \<mapsto> PyFloat (-22))) m = Inr r
      \<and> filter (\<lambda>x. metric_of x = Rms) (all_messages r) = [])"
proof -
  have c: "rms_critical (-20) = []" "rms_critical (-16) = []" "rms_critical (-22) = []"
    by (simp_all add: rms_critical_def)
  have g: "rms_good (-20) = [Advice RmsGood (-20)]" "rms_good (-16) = [Advice RmsGood (-16)]"
    "rms_good (-22) = []"
    by (simp_all add: rms_good_def)
  from rms_messages[OF assms, of "-20" m] obtain r where
    "generate_recommendations (a(''rms_db'' \<mapsto> PyFloat (-20))) m = Inr r"
    "filter (\<lambda>x. metric_of x = Rms) (critical r) = rms_critical (-20)"
    "filter (\<lambda>x. metric_of x = Rms) (important r) = []"
    "filter (\<lambda>x. metric_of x = Rms) (good_points r) = rms_good (-20)" by blast
  then have s1: "\<exists>r. generate_recommendations (a(''rms_db'' \<mapsto> PyFloat (-20))) m = Inr r
      \<and> filter (\<lambda>x. metric_of x = Rms) (good_points r) = [Advice RmsGood (-20)]
      \<and> filter (\<lambda>x. metric_of x = Rms) (critical r @ important r) = []"
    by (simp add: c g)
  from rms_messages[OF assms, of "-16" m] obtain r where
    "generate_recommendations (a(''rms_db'' \<mapsto> PyFloat (-16))) m = Inr r"
    "filter (\<lambda>x. metric_of x = Rms) (critical r) = rms_critical (-16)"
    "filter (\<lambda>x. metric_of x = Rms) (important r) = []"
    "filter (\<lambda>x. metric_of x = Rms) (good_points r) = rms_good (-16)" by blast
  then have s2: "\<exists>r. generate_recommendations (a(''rms_db'' \<mapsto> PyFloat (-16))) m = Inr r
      \<and> filter (\<lambda>x. metric_of x = Rms) (good_points r) = [Advice RmsGood (-16)]
      \<and> filter (\<lambda>x. metric_of x = Rms) (critical r @ important r) = []"
    by (simp add: c g)
  from rms_messages[OF assms, of "-22" m] obtain r where
    "generate_recommendations (a(''rms_db'' \<mapsto> PyFloat (-22))) m = Inr r"
    "filter (\<lambda>x. metric_of x = Rms) (critical r) = rms_critical (-22)"
    "filter (\<lambda>x. metric_of x = Rms) (important r) = []"
    "filter (\<lambda>x. metric_of x = Rms) (good_points r) = rms_good (-22)" by blast
  then have s3: "\<exists>r. generate_recommendations (a(''rms_db'' \<mapsto> PyFloat (-22))) m = Inr r
      \<and> filter (\<lambda>x. metric_of x = Rms) (all_messages r) = []"
    by (simp add: c g all_messages_def)
  from s1 s2 s3 show ?thesis by (intro conjI)
qed

theorem rms_good_band_inclusive_and_gap_witness:
  "(\<exists>r. generate_recommendations
        ([''peak_db'' \<mapsto> PyFloat (-3), ''crest_factor'' \<mapsto> PyFloat 12,
          ''stereo_width'' \<mapsto> PyFloat 60, ''rms_db'' \<mapsto> PyFloat (-20)]) Map.empty = Inr r
      \<and> filter (\<lambda>x. metric_of x = Rms) (good_points r) = [Advice RmsGood (-20)]
      \<and> filter (\<lambda>x. metric_of x = Rms) (critical r @ important r) = [])
   \<and> (\<exists>r. generate_recommendations
        ([''peak_db'' \<mapsto> PyFloat (-3), ''crest_factor'' \<mapsto> PyFloat 12,
          ''stereo_width'' \<mapsto> PyFloat 60, ''rms_db'' \<mapsto> PyFloat (-22)]) Map.empty = Inr r
      \<and> filter (\<lambda>x. metric_of x = Rms) (all_messages r) = [])"
  using rms_good_band_inclusive_and_gap
    [of "[''peak_db'' \<mapsto> PyFloat (-3), ''crest_factor'' \<mapsto> PyFloat 12, ''stereo_width'' \<mapsto> PyFloat 60]"
       "-3" 12 60 Map.empty]
  by simp

text \<open>
  Claim C8. Equal arguments give equal results, and in every returned result each of
  the three lists holds its messages in the metric order rms, peak, crest factor,
  stereo width, each metric contributing at most one message over the three lists.
  The embedding is a function of its two arguments only, as the source body reads
  nothing else and assigns only to its local dictionary.
\<close>

theorem recommendations_deterministic_ordered:
  assumes "a = a'" and "m = m'"
  shows "generate_recommendations a m = generate_recommendations a' m'
    \<and> (\<forall>r. generate_recommendations a m = Inr r \<longrightarrow>
          sorted_wrt (<) (map (\<lambda>x. metric_rank (metric_of x)) (critical r))
        \<and> sorted_wrt (<) (map (\<lambda>x. metric_rank (metric_of x)) (important r))
        \<and> sorted_wrt (<) (map (\<lambda>x. metric_rank (metric_of x)) (good_points r))
        \<and> (\<forall>k. length (filter (\<lambda>x. metric_of x = k) (all_messages r)) \<le> 1))"
  using assms result_sorted result_at_most_one by blast

theorem recommendations_deterministic_ordered_witness:
  "generate_recommendations
     [''rms_db'' \<mapsto> PyFloat (-25), ''peak_db'' \<mapsto> PyFloat 0,
      ''crest_factor'' \<mapsto> PyFloat 6, ''stereo_width'' \<mapsto> PyFloat 20] Map.empty
   = Inr \<lparr>critical = [Advice RmsTooLow (-25), Advice PeakTooHigh 0],
          important = [Advice CrestTooLow 6, Advice WidthTooNarrow 20],
          good_points = []\<rparr>
   \<and> sorted_wrt (<) (map (\<lambda>x. metric_rank (metric_of x))
         [Advice RmsTooLow (-25), Advice PeakTooHigh 0])"
proof -
  let ?a = "[''rms_db'' \<mapsto> PyFloat (-25), ''peak_db'' \<mapsto> PyFloat 0,
      ''crest_factor'' \<mapsto> PyFloat 6, ''stereo_width'' \<mapsto> PyFloat 20]"
  let ?m = "Map.empty :: pydict"
  have e: "generate_recommendations ?a ?m
     = Inr \<lparr>critical = [Advice RmsTooLow (-25), Advice PeakTooHigh 0],
          important = [Advice CrestTooLow 6, Advice WidthTooNarrow 20],
          good_points = []\<rparr>"
    by (simp add: generate_recommendations_def lookup_num_def check_rms_def check_peak_def
        check_crest_def check_width_def append_defs empty_recommendations_def)
  from recommendations_deterministic_ordered[OF refl refl, of ?a ?m] e
  show ?thesis by simp
qed

text \<open>
  Claim C9. The result of \<^verbatim>\<open>generate_recommendations\<close>, exceptions included, is decided
  by the four entries \<^verbatim>\<open>rms_db\<close>, \<^verbatim>\<open>peak_db\<close>, \<^verbatim>\<open>crest_factor\<close> and \<^verbatim>\<open>stereo_width\<close> of
  \<^verbatim>\<open>analysis_data\<close>: two calls whose first arguments agree on these four keys return the
  same result, whatever the other keys (band energies, dynamic range, duration,
  instruments) hold and whatever the two \<^verbatim>\<open>metadata\<close> arguments are.
\<close>

theorem recommendations_depend_on_four_fields:
  assumes "a ''rms_db'' = a' ''rms_db''" and "a ''peak_db'' = a' ''peak_db''"
    and "a ''crest_factor'' = a' ''crest_factor''" and "a ''stereo_width'' = a' ''stereo_width''"
  shows "generate_recommendations a m = generate_recommendations a' m'"
proof -
  have "lookup_num a ''rms_db'' = lookup_num a' ''rms_db''"
    "lookup_num a ''peak_db'' = lookup_num a' ''peak_db''"
    "lookup_num a ''crest_factor'' = lookup_num a' ''crest_factor''"
    "lookup_num a ''stereo_width'' = lookup_num a' ''stereo_width''"
    using assms by (simp_all only: lookup_num_def)
  then show ?thesis
    by (simp only: generate_recommendations_def)
qed

theorem recommendations_depend_on_four_fields_witness:
  "generate_recommendations
     [''rms_db'' \<mapsto> PyFloat (-25), ''peak_db'' \<mapsto> PyFloat (-3),
      ''crest_factor'' \<mapsto> PyFloat 6, ''stereo_width'' \<mapsto> PyFloat 20,
      ''dynamic_range'' \<mapsto> PyFloat 9, ''duration'' \<mapsto> PyFloat 180,
      ''band_energies'' \<mapsto> PyDict [(''bass'', PyFloat (-30))]]
     [''venue'' \<mapsto> PyStr ''hall'']
   = generate_recommendations
     [''rms_db'' \<mapsto> PyFloat (-25), ''peak_db'' \<mapsto> PyFloat (-3),
      ''crest_factor'' \<mapsto> PyFloat 6, ''stereo_width'' \<mapsto> PyFloat 20,
      ''dynamic_range'' \<mapsto> PyFloat 2, ''duration'' \<mapsto> PyFloat 1,
      ''instruments'' \<mapsto> PyDict [(''kick'', PyDict [(''rms_db'', PyFloat (-40))])]]
     Map.empty"
  by (rule recommendations_depend_on_four_fields) simp_all

section \<open>Stereo width\<close>

lemma side_energy_same:
  "sum_list (map (\<lambda>x. x ^ 2) (map (\<lambda>x. x / 2) (map2 (-) xs xs))) = (0::real)"
  by (induction xs) simp_all

lemma stereo_width_identical:
  assumes "self_y self ! 0 = self_y self ! 1"
  shows "calculate_stereo_width self = 0"
  unfolding calculate_stereo_width_def Let_def assms side_energy_same
  by (simp add: np_clip_def)

lemma f32_overflow_pos: "0 < f32_overflow"
  by (simp add: f32_overflow_def)

lemma f32_underflow_pos: "0 < f32_underflow"
  by (simp add: f32_underflow_def)

lemma f32_round_not_nan: "f32_round x \<noteq> NaN"
  by (simp add: f32_round_def)

lemma f32_round_zero: "f32_round 0 = Fin 0"
  using f32_overflow_pos f32_underflow_pos by (simp add: f32_round_def)

lemma f32_round_nonneg: "0 \<le> x \<Longrightarrow> f32_nonneg (f32_round x)"
  using f32_overflow_pos by (simp add: f32_round_def f32_nonneg_def)

lemma f32_add_nonneg: "f32_nonneg a \<Longrightarrow> f32_nonneg b \<Longrightarrow> f32_nonneg (f32_add a b)"
  by (cases a; cases b) (simp_all add: f32_nonneg_def f32_round_nonneg[unfolded f32_nonneg_def])

lemma f32_square_nonneg: "v \<noteq> NaN \<Longrightarrow> f32_nonneg (f32_mul v v)"
  by (cases v) (simp_all add: f32_round_nonneg, simp_all add: f32_nonneg_def)

lemma f32_half_not_nan: "v \<noteq> NaN \<Longrightarrow> f32_div v (Fin 2) \<noteq> NaN"
  by (cases v) (simp_all add: f32_round_not_nan)

lemma foldl_f32_add_nonneg:
  "f32_nonneg a \<Longrightarrow> (\<And>x. x \<in> set xs \<Longrightarrow> f32_nonneg x) \<Longrightarrow> f32_nonneg (foldl f32_add a xs)"
  by (induction xs arbitrary: a) (simp_all add: f32_add_nonneg)

lemma f32_sum_nonneg: "(\<And>x. x \<in> set xs \<Longrightarrow> f32_nonneg x) \<Longrightarrow> f32_nonneg (f32_sum xs)"
  unfolding f32_sum_def by (rule foldl_f32_add_nonneg) (simp_all add: f32_nonneg_def)

lemma mid_energy_f32_nonneg: "f32_nonneg (mid_energy_f32 L R)"
  unfolding mid_energy_f32_def
  by (rule f32_sum_nonneg) (auto intro!: f32_square_nonneg f32_half_not_nan simp: f32_round_not_nan)


lemma f32_nonneg_cases:
  assumes "f32_nonneg v"
  obtains x where "v = Fin x" "0 \<le> x" | "v = PInf"
  using assms by (cases v) (simp_all add: f32_nonneg_def)





lemma calculate_stereo_width_f32_unfold:
  "calculate_stereo_width_f32 self =
     (if length (self_y self) < 2 then Fin 0
      else if f32_add (mid_energy_f32 (self_y self ! 0) (self_y self ! 1))
                (side_energy_f32 (self_y self ! 0) (self_y self ! 1)) = Fin 0 then Fin 0
      else f32_clip (f32_mul (f32_div (side_energy_f32 (self_y self ! 0) (self_y self ! 1))
              (f32_add (mid_energy_f32 (self_y self ! 0) (self_y self ! 1))
                (side_energy_f32 (self_y self ! 0) (self_y self ! 1)))) (Fin 100)) 0 100)"
  unfolding calculate_stereo_width_f32_def Let_def by (rule refl)




lemma foldl_f32_add_zeros:
  "(\<And>x. x \<in> set xs \<Longrightarrow> x = Fin 0) \<Longrightarrow> foldl f32_add (Fin 0) xs = Fin 0"
proof (induction xs)
  case Nil
  then show ?case by simp
next
  case (Cons a xs)
  have a: "a = Fin 0" by (rule Cons.prems) simp
  have "foldl f32_add (Fin 0) xs = Fin 0"
    by (rule Cons.IH) (rule Cons.prems, simp)
  then show ?case by (simp add: a f32_round_zero)
qed

lemma side_element_same:
  "f32_mul (f32_div (f32_sub (Fin x) (Fin x)) (Fin 2)) (f32_div (f32_sub (Fin x) (Fin x)) (Fin 2)) = Fin 0"
  by (simp add: f32_round_zero)

lemma side_energy_f32_same: "side_energy_f32 xs xs = Fin 0"
proof -
  have "foldl f32_add (Fin 0) (map (\<lambda>x. f32_mul x x)
       (map (\<lambda>x. f32_div x (Fin 2)) (map2 (\<lambda>l r. f32_sub (Fin l) (Fin r)) xs xs))) = Fin 0"
  proof (rule foldl_f32_add_zeros)
    fix v assume "v \<in> set (map (\<lambda>x. f32_mul x x)
       (map (\<lambda>x. f32_div x (Fin 2)) (map2 (\<lambda>l r. f32_sub (Fin l) (Fin r)) xs xs)))"
    then obtain x where
      "v = f32_mul (f32_div (f32_sub (Fin x) (Fin x)) (Fin 2)) (f32_div (f32_sub (Fin x) (Fin x)) (Fin 2))"
      by (auto simp: zip_same_conv_map)
    then show "v = Fin 0" by (simp only: side_element_same)
  qed
  then show ?thesis unfolding side_energy_f32_def f32_sum_def .
qed

lemma stereo_width_f32_identical:
  assumes "self_y self ! 0 = self_y self ! 1"
  shows "calculate_stereo_width_f32 self = Fin 0"
proof -
  let ?m = "mid_energy_f32 (self_y self ! 1) (self_y self ! 1)"
  let ?t = "f32_add ?m (Fin 0)"
  have t: "f32_nonneg ?t"
    by (intro f32_add_nonneg mid_energy_f32_nonneg) (simp add: f32_nonneg_def)
  have d: "f32_div (Fin 0) ?t = Fin 0" if "?t \<noteq> Fin 0"
    using t that by (cases rule: f32_nonneg_cases) (auto simp: f32_round_zero)
  have c: "f32_clip (f32_mul (Fin 0) (Fin 100)) 0 100 = Fin 0"
    by (simp add: f32_round_zero np_clip_def)
  show ?thesis
  proof (cases "length (self_y self) < 2 \<or> ?t = Fin 0")
    case True
    then show ?thesis
      unfolding calculate_stereo_width_f32_unfold assms side_energy_f32_same by auto
  next
    case False
    then show ?thesis
      unfolding calculate_stereo_width_f32_unfold assms side_energy_f32_same
      using d c by simp
  qed
qed






lemma load_audio_returns:
  "sr \<noteq> 0 \<Longrightarrow> load_audio d sr =
     Inr \<lparr>self_y = (case d of Mono xs \<Rightarrow> [xs, xs] | Multi rows \<Rightarrow> rows), self_sr = sr,
          self_duration = real (n_samples (case d of Mono xs \<Rightarrow> [xs, xs] | Multi rows \<Rightarrow> rows)) / sr\<rparr>"
  by (simp add: load_audio_def Let_def)

text \<open>
  Claim C10. \<^verbatim>\<open>load_audio\<close> turns a one-channel signal into two equal channels, so its
  stereo width is exactly 0, over the reals and in float32; and every buffer that \<^verbatim>\<open>load_audio\<close> builds from a decoded
  signal (one-dimensional, or with at least two rows) has at least two channels, so
  the first branch of \<^verbatim>\<open>calculate_stereo_width\<close> is not taken for it.
\<close>

theorem mono_input_zero_width:
  assumes "sr \<noteq> 0"
  shows "(\<exists>a. load_audio (Mono xs) sr = Inr a \<and> self_y a = [xs, xs]
            \<and> calculate_stereo_width a = 0 \<and> calculate_stereo_width_f32 a = Fin 0)
       \<and> (\<forall>d. well_formed d \<longrightarrow> (\<exists>a. load_audio d sr = Inr a \<and> \<not> length (self_y a) < 2))"
proof (intro conjI allI impI)
  let ?a = "\<lparr>self_y = [xs, xs], self_sr = sr, self_duration = real (n_samples [xs, xs]) / sr\<rparr>"
  have "load_audio (Mono xs) sr = Inr ?a"
    using assms by (simp add: load_audio_returns)
  moreover have "calculate_stereo_width ?a = 0"
    by (rule stereo_width_identical) simp
  moreover have "calculate_stereo_width_f32 ?a = Fin 0"
    by (rule stereo_width_f32_identical) simp
  ultimately show "\<exists>a. load_audio (Mono xs) sr = Inr a \<and> self_y a = [xs, xs]
            \<and> calculate_stereo_width a = 0 \<and> calculate_stereo_width_f32 a = Fin 0" by simp
next
  fix d assume "well_formed d"
  then show "\<exists>a. load_audio d sr = Inr a \<and> \<not> length (self_y a) < 2"
    using assms by (cases d) (simp_all add: load_audio_returns well_formed_def)
qed

theorem mono_input_zero_width_witness:
  "(\<exists>a. load_audio (Mono [1/2, -1/2, 1/4]) 44100 = Inr a
        \<and> self_y a = [[1/2, -1/2, 1/4], [1/2, -1/2, 1/4]] \<and> calculate_stereo_width a = 0
        \<and> calculate_stereo_width_f32 a = Fin 0)
   \<and> well_formed (Multi [[1, 0], [0, 1]])
   \<and> (\<exists>a. load_audio (Multi [[1, 0], [0, 1]]) 44100 = Inr a \<and> \<not> length (self_y a) < 2)"
proof -
  have w: "well_formed (Multi [[1, 0], [0, 1]])"
    by (simp add: well_formed_def rectangular_def n_samples_def)
  have n: "(44100::real) \<noteq> 0" by simp
  from mono_input_zero_width[OF n, of "[1/2, -1/2, 1/4]"] w show ?thesis by blast
qed

section \<open>The band filter\<close>

lemma map_times_zero: "map (\<lambda>x. x * 0) (audio :: real list) = replicate (length audio) 0"
  by (induction audio) simp_all

lemma bandpass_filter_unfold:
  assumes "self_sr self \<noteq> 0"
  shows "bandpass_filter filt self audio low high =
     (if np_clip (high / (self_sr self / 2)) 0.001 0.999 \<le> np_clip (low / (self_sr self / 2)) 0.001 0.999
      then Inr (replicate (length audio) 0)
      else (case filt (np_clip (low / (self_sr self / 2)) 0.001 0.999)
                      (np_clip (high / (self_sr self / 2)) 0.001 0.999) audio of
              Some filtered \<Rightarrow> Inr filtered
            | None \<Rightarrow> Inr (replicate (length audio) 0)))"
  using assms unfolding bandpass_filter_def Let_def map_times_zero by simp

lemma bandpass_filter_returns:
  "self_sr self \<noteq> 0 \<Longrightarrow> \<exists>out. bandpass_filter filt self audio low high = Inr out"
  by (simp add: bandpass_filter_unfold split: option.split)

text \<open>
  Claim C2. For a sample rate other than zero, \<^verbatim>\<open>bandpass_filter\<close> returns without an
  exception. When the clipped normalised low cutoff is at least the clipped normalised
  high cutoff it returns zeros of the length of the input, and so it does when the
  design or the application of the filter raises.
\<close>

theorem bandpass_filter_fail_soft:
  assumes "self_sr self \<noteq> 0"
  shows "(np_clip (low / (self_sr self / 2)) 0.001 0.999 \<ge> np_clip (high / (self_sr self / 2)) 0.001 0.999
          \<longrightarrow> bandpass_filter filt self audio low high = Inr (replicate (length audio) 0))
       \<and> (filt (np_clip (low / (self_sr self / 2)) 0.001 0.999)
                (np_clip (high / (self_sr self / 2)) 0.001 0.999) audio = None
          \<longrightarrow> bandpass_filter filt self audio low high = Inr (replicate (length audio) 0))
       \<and> (\<exists>out. bandpass_filter filt self audio low high = Inr out)"
  unfolding bandpass_filter_unfold[OF assms] by (simp split: option.split)

theorem bandpass_filter_fail_soft_witness:
  "bandpass_filter (\<lambda>l h xs. Some xs) \<lparr>self_y = [[1, 2], [1, 2]], self_sr = 44100, self_duration = 2/44100\<rparr>
      [1, 2, 3] 100 50 = Inr [0, 0, 0]
   \<and> bandpass_filter (\<lambda>l h xs. None) \<lparr>self_y = [[1, 2], [1, 2]], self_sr = 44100, self_duration = 2/44100\<rparr>
      [1, 2, 3] 50 100 = Inr [0, 0, 0]"
  using bandpass_filter_fail_soft[where self = "\<lparr>self_y = [[1, 2], [1, 2]], self_sr = 44100, self_duration = 2/44100\<rparr>"
      and low = 100 and high = 50 and filt = "\<lambda>l h xs. Some xs" and audio = "[1, 2, 3]"]
    bandpass_filter_fail_soft[where self = "\<lparr>self_y = [[1, 2], [1, 2]], self_sr = 44100, self_duration = 2/44100\<rparr>"
      and low = 50 and high = 100 and filt = "\<lambda>l h xs. None" and audio = "[1, 2, 3]"]
  by (simp add: np_clip_def numeral_3_eq_3)

section \<open>The whole-mix analysis\<close>

lemma length_np_mean_axis0: "length (np_mean_axis0 ys) = n_samples ys"
  by (simp add: np_mean_axis0_def)

lemma band_energy_loop_returns:
  "self_sr self \<noteq> 0 \<Longrightarrow> \<exists>es. band_energy_loop filt self audio bs = Inr es"
proof (induction bs)
  case Nil
  then show ?case by simp
next
  case (Cons b bs)
  obtain name low high where b: "b = (name, low, high)" by (cases b) auto
  from bandpass_filter_returns[OF Cons.prems]
  obtain out where "bandpass_filter filt self audio low high = Inr out" by blast
  moreover from Cons obtain es where "band_energy_loop filt self audio bs = Inr es" by blast
  ultimately show ?case by (simp add: b Let_def)
qed

lemma analyze_2mix_empty:
  assumes "n_samples (self_y self) = 0"
  shows "analyze_2mix filt self = Inl ValueError"
proof -
  have "np_mean_axis0 (self_y self) = []"
    using assms length_np_mean_axis0[of "self_y self"] by simp
  then show ?thesis by (simp add: analyze_2mix_def np_max_def)
qed

lemma analyze_2mix_returns:
  assumes "0 < n_samples (self_y self)" and "self_sr self \<noteq> 0"
  shows "\<exists>es. analyze_2mix filt self =
     Inr [''rms_db'' \<mapsto> PyFloat (to_db (np_mean (librosa_rms 2048 512 (np_mean_axis0 (self_y self))))),
          ''peak_db'' \<mapsto> PyFloat (to_db (Max (set (map abs (np_mean_axis0 (self_y self)))))),
          ''crest_factor'' \<mapsto> PyFloat (to_db (Max (set (map abs (np_mean_axis0 (self_y self)))))
               - to_db (np_mean (librosa_rms 2048 512 (np_mean_axis0 (self_y self))))),
          ''stereo_width'' \<mapsto> PyFloat (calculate_stereo_width self),
          ''band_energies'' \<mapsto> PyDict es,
          ''dynamic_range'' \<mapsto> PyFloat (calculate_dynamic_range (np_mean_axis0 (self_y self))),
          ''duration'' \<mapsto> PyFloat (self_duration self)]"
proof -
  let ?mono = "np_mean_axis0 (self_y self)"
  have "?mono \<noteq> []"
    using assms(1) length_np_mean_axis0[of "self_y self"] by auto
  then have m: "np_max (map abs ?mono) = Inr (Max (set (map abs ?mono)))"
    by (simp add: np_max_def)
  obtain es where e: "calculate_band_energies filt self ?mono = Inr es"
    unfolding calculate_band_energies_def
    using band_energy_loop_returns[OF assms(2)] by blast
  show ?thesis
    unfolding analyze_2mix_def Let_def m e by (intro exI[of _ es]) simp
qed

lemma sum_list_le_const:
  "(\<And>x. x \<in> set xs \<Longrightarrow> f x \<le> (c::real)) \<Longrightarrow> sum_list (map f xs) \<le> real (length xs) * c"
  by (induction xs) (auto simp: algebra_simps intro: add_mono)

lemma np_mean_le:
  assumes "\<And>x. x \<in> set xs \<Longrightarrow> x \<le> c" and "0 \<le> c"
  shows "np_mean xs \<le> c"
proof (cases "xs = []")
  case True
  with assms(2) show ?thesis by (simp add: np_mean_def)
next
  case False
  then have l: "0 < real (length xs)" by simp
  have "sum_list xs \<le> real (length xs) * c"
    using sum_list_le_const[of xs "\<lambda>x. x" c] assms(1) by simp
  then show ?thesis
    unfolding np_mean_def using l by (simp add: pos_divide_le_eq mult.commute)
qed

lemma np_mean_nonneg:
  assumes "\<And>x. x \<in> set xs \<Longrightarrow> 0 \<le> x"
  shows "0 \<le> np_mean xs"
  unfolding np_mean_def using assms by (simp add: sum_list_nonneg)

lemma frame_rms_le:
  assumes "\<And>x. x \<in> set f \<Longrightarrow> \<bar>x\<bar> \<le> p" and "0 \<le> p"
  shows "sqrt (np_mean (map (\<lambda>x. \<bar>x\<bar> ^ 2) f)) \<le> p"
proof -
  have "np_mean (map (\<lambda>x. \<bar>x\<bar> ^ 2) f) \<le> p ^ 2"
  proof (rule np_mean_le)
    fix v assume "v \<in> set (map (\<lambda>x. \<bar>x\<bar> ^ 2) f)"
    then obtain x where "x \<in> set f" "v = \<bar>x\<bar> ^ 2" by auto
    from assms(1)[of x] \<open>x \<in> set f\<close> have "\<bar>x\<bar> ^ 2 \<le> p ^ 2"
      by (intro power_mono) simp_all
    with \<open>v = \<bar>x\<bar> ^ 2\<close> show "v \<le> p ^ 2" by simp
  qed simp
  then have "sqrt (np_mean (map (\<lambda>x. \<bar>x\<bar> ^ 2) f)) \<le> sqrt (p ^ 2)"
    by (rule real_sqrt_le_mono)
  with assms(2) show ?thesis by simp
qed

lemma set_pad_center: "set (pad_center fl xs) \<subseteq> insert 0 (set xs)"
  by (auto simp: pad_center_def)

lemma set_frames: "f \<in> set (frames fl hop ys) \<Longrightarrow> set f \<subseteq> set ys"
  by (auto simp: frames_def dest!: in_set_takeD in_set_dropD)

lemma frames_nonempty: "frames fl hop ys \<noteq> []"
  by (simp add: frames_def)

lemma librosa_rms_nonempty: "librosa_rms fl hop xs \<noteq> []"
  by (simp add: librosa_rms_def frames_nonempty)

lemma librosa_rms_bounds:
  assumes "\<And>x. x \<in> set xs \<Longrightarrow> \<bar>x\<bar> \<le> p" and "0 \<le> p" and "v \<in> set (librosa_rms fl hop xs)"
  shows "0 \<le> v \<and> v \<le> p"
proof -
  from assms(3) obtain f where f: "f \<in> set (frames fl hop (pad_center fl xs))"
    and v: "v = sqrt (np_mean (map (\<lambda>x. \<bar>x\<bar> ^ 2) f))"
    by (auto simp: librosa_rms_def)
  have "\<bar>x\<bar> \<le> p" if "x \<in> set f" for x
  proof -
    from that set_frames[OF f] set_pad_center[of fl xs] have "x = 0 \<or> x \<in> set xs" by auto
    with assms(1,2) show ?thesis by auto
  qed
  then have "v \<le> p" unfolding v using assms(2) by (rule frame_rms_le)
  moreover have "0 \<le> np_mean (map (\<lambda>x. \<bar>x\<bar> ^ 2) f)"
    by (rule np_mean_nonneg) auto
  then have "0 \<le> v" unfolding v by simp
  ultimately show ?thesis by simp
qed





lemma np_mean_replicate_zero: "np_mean (replicate m 0) = 0"
  by (simp add: np_mean_def sum_list_replicate)

lemma np_mean_axis0_zeros:
  assumes "0 < c"
  shows "np_mean_axis0 (replicate c (replicate n 0)) = replicate n 0"
proof -
  from assms obtain c' where c: "c = Suc c'" by (cases c) auto
  have n: "n_samples (replicate c (replicate n 0)) = n"
    by (simp add: c n_samples_def)
  have "np_mean (map (\<lambda>r. r ! j) (replicate c (replicate n 0))) = 0" if "j < n" for j
    using that by (simp add: np_mean_replicate_zero)
  then show ?thesis
    unfolding np_mean_axis0_def n by (intro replicate_eqI) auto
qed

lemma librosa_rms_zeros:
  "librosa_rms fl hop (replicate n 0) = replicate (length (librosa_rms fl hop (replicate n 0))) 0"
proof (rule replicate_eqI)
  fix v assume "v \<in> set (librosa_rms fl hop (replicate n 0))"
  with librosa_rms_bounds[of "replicate n 0" 0 v fl hop] show "v = 0" by auto
qed simp

lemma np_percentile_constant:
  assumes "0 < m" and "0 \<le> q" and "q \<le> 100"
  shows "np_percentile (replicate m c) q = c"
proof -
  let ?h = "real (m - 1) * q / 100"
  have "?h \<le> real (m - 1)"
    using assms(2,3) mult_left_mono[of q 100 "real (m - 1)"] by simp
  moreover have "0 \<le> ?h" using assms(2) by simp
  ultimately have "nat \<lfloor>?h\<rfloor> \<le> m - 1"
    by (metis floor_of_nat floor_mono nat_int nat_mono)
  with assms(1) have lo: "nat \<lfloor>?h\<rfloor> < m" by simp
  have hi: "min (nat \<lfloor>?h\<rfloor> + 1) (m - 1) < m" using assms(1) by simp
  show ?thesis
    unfolding np_percentile_def Let_def
    using lo hi by (simp add: sorted_sort_id)
qed

lemma to_db_zero: "to_db 0 = -200"
proof -
  have "log 10 ((10::real) ^ 10) = real 10"
    by (rule log_pow_cancel) simp_all
  then have "log 10 (1 / (10::real) ^ 10) = - 10"
    by (simp only: log_recip)
  then show ?thesis unfolding to_db_def by (simp only: add_0)
qed

lemma dynamic_range_zeros: "calculate_dynamic_range (replicate n 0) = 0"
proof -
  let ?m = "length (librosa_rms 2048 512 (replicate n 0))"
  have m: "0 < ?m" using librosa_rms_nonempty[of 2048 512 "replicate n 0"] by simp
  have r: "map to_db (librosa_rms 2048 512 (replicate n 0)) = replicate ?m (to_db 0)"
    by (subst librosa_rms_zeros) simp
  show ?thesis
    unfolding calculate_dynamic_range_def Let_def r
    using m by (simp add: np_percentile_constant)
qed

text \<open>
  Claim C7. For a buffer of \<open>c\<close> channels of \<open>n\<close> samples, all zero, with \<open>c\<close> and \<open>n\<close> positive
  and a sample rate other than zero, \<^verbatim>\<open>analyze_2mix\<close> returns \<^verbatim>\<open>rms_db\<close> and \<^verbatim>\<open>peak_db\<close> both
  equal to \<open>20 * log10(1e-10)\<close>, which is -200, and a dynamic range of 0.
\<close>

theorem all_zero_buffer_floor:
  assumes "self_y self = replicate c (replicate n 0)" and "0 < c" and "0 < n"
    and "self_sr self \<noteq> 0"
  shows "\<exists>d. analyze_2mix filt self = Inr d
    \<and> d ''rms_db'' = Some (PyFloat (20 * log 10 (1 / 10 ^ 10)))
    \<and> d ''peak_db'' = Some (PyFloat (20 * log 10 (1 / 10 ^ 10)))
    \<and> 20 * log 10 (1 / 10 ^ 10) = (-200 :: real)
    \<and> d ''dynamic_range'' = Some (PyFloat 0)"
proof -
  have mono: "np_mean_axis0 (self_y self) = replicate n 0"
    unfolding assms(1) using assms(2) by (rule np_mean_axis0_zeros)
  have ns: "0 < n_samples (self_y self)"
    using length_np_mean_axis0[of "self_y self"] assms(3) unfolding mono by simp
  have rms: "np_mean (librosa_rms 2048 512 (replicate n 0)) = 0"
    by (subst librosa_rms_zeros) (rule np_mean_replicate_zero)
  have peak: "Max (set (map abs (replicate n (0::real)))) = 0"
    using assms(3) by simp
  have z: "to_db 0 = 20 * log 10 (1 / 10 ^ 10)" by (simp add: to_db_def)
  from analyze_2mix_returns[OF ns assms(4), of filt] obtain d where
    "analyze_2mix filt self = Inr d"
    "d ''rms_db'' = Some (PyFloat (to_db 0))"
    "d ''peak_db'' = Some (PyFloat (to_db 0))"
    "d ''dynamic_range'' = Some (PyFloat 0)"
    unfolding mono rms peak dynamic_range_zeros by auto
  moreover have "20 * log 10 (1 / 10 ^ 10) = (-200 :: real)"
    using to_db_zero unfolding z .
  ultimately show ?thesis unfolding z by blast
qed

theorem all_zero_buffer_floor_witness:
  "\<exists>d. analyze_2mix passthrough_filter
       \<lparr>self_y = [[0, 0, 0], [0, 0, 0]], self_sr = 44100, self_duration = 3/44100\<rparr> = Inr d
    \<and> d ''rms_db'' = Some (PyFloat (-200)) \<and> d ''peak_db'' = Some (PyFloat (-200))
    \<and> d ''dynamic_range'' = Some (PyFloat 0)"
proof -
  let ?a = "\<lparr>self_y = [[0, 0, 0], [0, 0, 0]], self_sr = 44100, self_duration = 3/44100\<rparr>"
  have h1: "self_y ?a = replicate 2 (replicate 3 0)" by (simp add: numeral_2_eq_2 numeral_3_eq_3)
  have h2: "(0::nat) < 2" "(0::nat) < 3" by simp_all
  have h3: "self_sr ?a \<noteq> 0" by simp
  from all_zero_buffer_floor[OF h1 h2 h3, of passthrough_filter] obtain d where
    "analyze_2mix passthrough_filter ?a = Inr d"
    "d ''rms_db'' = Some (PyFloat (20 * log 10 (1 / 10 ^ 10)))"
    "d ''peak_db'' = Some (PyFloat (20 * log 10 (1 / 10 ^ 10)))"
    "20 * log 10 (1 / 10 ^ 10) = (-200 :: real)"
    "d ''dynamic_range'' = Some (PyFloat 0)" by blast
  then show ?thesis by (intro exI[of _ d]) (simp only: simp_thms)
qed

lemma snd_analyze_2mix_trace: "snd (analyze_2mix_trace filt self) = analyze_2mix filt self"
  unfolding analyze_2mix_trace_def analyze_2mix_def Let_def
  by (simp split: sum.split)

lemma rms_db_of_empty: "to_db (np_mean (librosa_rms 2048 512 [])) = -200"
proof -
  have "librosa_rms 2048 512 [] = replicate (length (librosa_rms 2048 512 [])) 0"
    using librosa_rms_zeros[of 2048 512 0] by simp
  then have "np_mean (librosa_rms 2048 512 []) = 0"
    using np_mean_replicate_zero[of "length (librosa_rms 2048 512 [])"] by simp
  then show ?thesis by (simp only: to_db_zero)
qed

lemma analyze_2mix_trace_empty:
  assumes "n_samples (self_y self) = 0"
  shows "analyze_2mix_trace filt self = ([(''rms_db'', PyFloat (-200))], Inl ValueError)"
proof -
  have m: "np_mean_axis0 (self_y self) = []"
    using assms length_np_mean_axis0[of "self_y self"] by simp
  show ?thesis
    unfolding analyze_2mix_trace_def Let_def m rms_db_of_empty
    by (simp add: np_max_def)
qed

lemma loaded_nonpositive_duration:
  assumes "0 < sr" and "load_audio d sr = Inr self" and "self_duration self \<le> 0"
  shows "n_samples (self_y self) = 0"
proof -
  from assms(1,2) have "self_duration self = real (n_samples (self_y self)) / sr"
    by (auto simp: load_audio_def Let_def)
  with assms(1,3) have "real (n_samples (self_y self)) \<le> 0"
    by (simp add: divide_le_0_iff)
  then show ?thesis by simp
qed

text \<open>
  Claim C1, as the code has it. \<^verbatim>\<open>analyze_2mix\<close> has no check of its input. For a buffer
  that \<^verbatim>\<open>load_audio\<close> built at a positive sample rate and that has no samples or a
  duration that is not positive, it raises the ValueError of \<^verbatim>\<open>np.max\<close> on the empty
  mono signal, after \<^verbatim>\<open>rms_db\<close> has been computed as -200, and returns no descriptor.
\<close>

theorem invalid_loaded_buffer_fails:
  assumes "well_formed d" and "0 < sr" and "load_audio d sr = Inr self"
    and "n_samples (self_y self) = 0 \<or> self_duration self \<le> 0"
  shows "analyze_2mix filt self = Inl ValueError
    \<and> analyze_2mix_trace filt self = ([(''rms_db'', PyFloat (-200))], Inl ValueError)"
proof -
  from assms(4) have n: "n_samples (self_y self) = 0"
    using loaded_nonpositive_duration[OF assms(2,3)] by blast
  from n have "analyze_2mix filt self = Inl ValueError" by (rule analyze_2mix_empty)
  moreover from n have
    "analyze_2mix_trace filt self = ([(''rms_db'', PyFloat (-200))], Inl ValueError)"
    by (rule analyze_2mix_trace_empty)
  ultimately show ?thesis by (rule conjI)
qed

theorem invalid_loaded_buffer_fails_witness:
  "well_formed (Multi [[], []]) \<and> (0::real) < 44100
   \<and> load_audio (Multi [[], []]) 44100 = Inr \<lparr>self_y = [[], []], self_sr = 44100, self_duration = 0\<rparr>
   \<and> analyze_2mix passthrough_filter \<lparr>self_y = [[], []], self_sr = 44100, self_duration = 0\<rparr>
       = Inl ValueError"
proof -
  let ?a = "\<lparr>self_y = [[], []], self_sr = 44100, self_duration = 0\<rparr>"
  have w: "well_formed (Multi [[], []])"
    by (simp add: well_formed_def rectangular_def n_samples_def)
  have s: "(0::real) < 44100" by simp
  have l: "load_audio (Multi [[], []]) 44100 = Inr ?a"
    by (simp add: load_audio_def n_samples_def)
  have i: "n_samples (self_y ?a) = 0 \<or> self_duration ?a \<le> 0" by simp
  from invalid_loaded_buffer_fails[OF w s l i, of passthrough_filter] w s l
  show ?thesis by simp
qed

text \<open>
  Claim C1, as stated, fails: for the file without frames, which loads as two empty
  channels with duration 0, the analysis computes \<^verbatim>\<open>rms_db\<close> before it fails, and it
  fails with the ValueError of \<^verbatim>\<open>np.max\<close>.
\<close>

theorem zero_frame_file_counterexample:
  "load_audio (Mono []) 44100 = Inr \<lparr>self_y = [[], []], self_sr = 44100, self_duration = 0\<rparr>
   \<and> analyze_2mix_trace passthrough_filter \<lparr>self_y = [[], []], self_sr = 44100, self_duration = 0\<rparr>
       = ([(''rms_db'', PyFloat (-200))], Inl ValueError)"
proof -
  have "load_audio (Mono []) 44100 = Inr \<lparr>self_y = [[], []], self_sr = 44100, self_duration = 0\<rparr>"
    by (simp add: load_audio_def n_samples_def)
  moreover have "analyze_2mix_trace passthrough_filter
      \<lparr>self_y = [[], []], self_sr = 44100, self_duration = 0\<rparr>
       = ([(''rms_db'', PyFloat (-200))], Inl ValueError)"
    by (rule analyze_2mix_trace_empty) (simp add: n_samples_def)
  ultimately show ?thesis by (rule conjI)
qed

end
